theory Spec2Isabelle
  imports Complex_Main "HOL-Library.Multiset"
begin

section \<open>Data model (src/widget.ts, src/calc/heatmap-result.ts)\<close>

text \<open>
  Strings are lists of ASCII characters. The functions below that depend on the
  character class of a character (\<open>trim\<close>, \<open>toLowerCase\<close>) follow JavaScript on
  ASCII text.

  A JavaScript \<open>number\<close> that is stored in a result matrix is either \<open>NaN\<close> or a real
  number: rounding, overflow and the infinities of IEEE doubles are not modelled. \<open>NaN\<close> is
  kept because the code produces it (adding \<open>undefined\<close> to a number) and tests for it
  (\<open>!x\<close> holds of \<open>NaN\<close>).
\<close>

datatype jsnum = NaN | Num real

text \<open>
  The \<open>year\<close> of a configuration is a \<open>number\<close> too. Its only writer in widget.ts is
  \<open>parseInt\<close>, which yields \<open>NaN\<close> or an integer, so the field ranges over these.
\<close>

datatype jsint = NaNi | Integer int

text \<open>The string literal types \<open>DemandType\<close> and \<open>ResultPerspective\<close> of webapi.\<close>

datatype DemandType = Consumption | Production

datatype ResultPerspective = direct | intermediate | final

text \<open>
  \<open>interface Config\<close>: every field is optional, so every field is an option; \<open>None\<close> is
  an absent property. \<open>source\<close> holds the identity of the sender; identities of objects
  are natural numbers.
\<close>

record Config =
  source :: "nat option"
  model :: "string option"
  sectors :: "string list option"
  indicators :: "string list option"
  perspective :: "ResultPerspective option"
  analysis :: "DemandType option"
  year :: "jsint option"
  location :: "string option"

definition emptyConfig :: Config where
  "emptyConfig = \<lparr> source = None, model = None, sectors = None, indicators = None,
     perspective = None, analysis = None, year = None, location = None \<rparr>"

section \<open>Arrays and numbers of JavaScript\<close>

text \<open>
  \<open>xs[i]\<close> for an integral index: \<open>None\<close> is \<open>undefined\<close>, the result of reading
  outside of the array.
\<close>

definition js_get :: "'a list \<Rightarrow> int \<Rightarrow> 'a option" where
  "js_get xs i = (if 0 \<le> i \<and> i < int (length xs) then Some (xs ! nat i) else None)"

text \<open>A number read from an array in an arithmetic context: \<open>undefined\<close> counts as \<open>NaN\<close>.\<close>

definition to_num :: "jsnum option \<Rightarrow> jsnum" where
  "to_num v = (case v of None \<Rightarrow> NaN | Some x \<Rightarrow> x)"

text \<open>\<open>!x\<close> for a number or \<open>undefined\<close>: zero, \<open>NaN\<close> and \<open>undefined\<close> are falsy.\<close>

definition falsy :: "jsnum option \<Rightarrow> bool" where
  "falsy v = (case v of None \<Rightarrow> True | Some NaN \<Rightarrow> True | Some (Num x) \<Rightarrow> x = 0)"

text \<open>Addition of numbers; \<open>NaN\<close> absorbs.\<close>

instantiation jsnum :: comm_monoid_add
begin

definition zero_jsnum :: jsnum where
  "zero_jsnum = Num 0"

fun plus_jsnum :: "jsnum \<Rightarrow> jsnum \<Rightarrow> jsnum" where
  "plus_jsnum (Num a) (Num b) = Num (a + b)"
| "plus_jsnum _ _ = NaN"

instance
proof (standard, goal_cases)
  case (1 x y z)
  show ?case by (cases x; cases y; cases z; simp)
next
  case (2 x y)
  show ?case by (cases x; cases y; simp)
next
  case (3 x)
  show ?case by (cases x; simp add: zero_jsnum_def)
qed

end

text \<open>
  \<open>xs.slice(0, end)\<close> for an integral \<open>end\<close>: a negative \<open>end\<close> counts from the end of
  the array.
\<close>

definition slice0 :: "'a list \<Rightarrow> int \<Rightarrow> 'a list" where
  "slice0 xs e =
     (let len = int (length xs);
          k = (if e < 0 then max (len + e) 0 else min e len)
      in take (nat k) xs)"

text \<open>
  \<open>xs.sort(cmp)\<close>: the elements in an order in which \<open>cmp a b \<le> 0\<close> for \<open>a\<close> before
  \<open>b\<close>; since ECMAScript 2019 the sort is stable. It is modelled as an insertion sort
  that puts an element in front of the first one it does not have to follow.
\<close>

fun insert_cmp :: "('a \<Rightarrow> 'a \<Rightarrow> real) \<Rightarrow> 'a \<Rightarrow> 'a list \<Rightarrow> 'a list" where
  "insert_cmp cmp x [] = [x]"
| "insert_cmp cmp x (y # ys) = (if cmp x y \<le> 0 then x # y # ys else y # insert_cmp cmp x ys)"

definition js_sort :: "('a \<Rightarrow> 'a \<Rightarrow> real) \<Rightarrow> 'a list \<Rightarrow> 'a list" where
  "js_sort cmp xs = foldr (insert_cmp cmp) xs []"

section \<open>Strings of JavaScript\<close>

text \<open>White space that \<open>trim\<close> removes, and the lower case of a letter.\<close>

definition is_space :: "char \<Rightarrow> bool" where
  "is_space c = (c \<in> set [CHR '' '', CHR 0x09, CHR 0x0A, CHR 0x0B, CHR 0x0C, CHR 0x0D])"

definition trim :: "string \<Rightarrow> string" where
  "trim s = rev (dropWhile is_space (rev (dropWhile is_space s)))"

definition lower_char :: "char \<Rightarrow> char" where
  "lower_char c =
     (if (65::nat) \<le> of_char c \<and> of_char c \<le> (90::nat)
      then char_of (of_char c + (32::nat)) else c)"

definition toLowerCase :: "string \<Rightarrow> string" where
  "toLowerCase s = map lower_char s"

text \<open>\<open>s.indexOf(pat)\<close>: the first position at which \<open>pat\<close> occurs in \<open>s\<close>, or \<open>-1\<close>.\<close>

fun indexOf_from :: "int \<Rightarrow> string \<Rightarrow> string \<Rightarrow> int" where
  "indexOf_from i [] pat = (if pat = [] then i else - 1)"
| "indexOf_from i (c # cs) pat =
     (if take (length pat) (c # cs) = pat then i else indexOf_from (i + 1) cs pat)"

definition indexOf :: "string \<Rightarrow> string \<Rightarrow> int" where
  "indexOf s pat = indexOf_from 0 s pat"

section \<open>Sectors, indicators and results (webapi)\<close>

text \<open>
  \<open>Sector\<close> and \<open>Indicator\<close> share \<open>code\<close>, \<open>index\<close> and \<open>name\<close>; a sector has an
  \<open>id\<close>, a \<open>description\<close> and a \<open>location\<close> (which may be \<open>null\<close>) in addition.
\<close>

record Item =
  code :: string
  index :: int
  name :: string

record Sector = Item +
  sector_id :: string
  description :: string
  sector_location :: "string option"

type_synonym Indicator = Item

text \<open>\<open>Result\<close>: the fields \<open>sectors\<close> and \<open>indicators\<close> are lists of codes.\<close>

record Result =
  data :: "jsnum list list"
  result_indicators :: "string list"
  result_sectors :: "string list"
  totals :: "jsnum list"

text \<open>
  \<open>Model\<close>: the answers of its two asynchronous methods. A rejected promise is outside of
  the model.
\<close>

record Model =
  isMultiRegional :: bool
  model_sectors :: "Sector list"

section \<open>HeatmapResult (src/calc/heatmap-result.ts)\<close>

text \<open>
  The two private matrices hold real numbers: an entry of \<open>normalized\<close> is \<open>0\<close> or the
  quotient of two numbers that are neither \<open>NaN\<close> nor zero, and \<open>shares\<close> is computed
  from \<open>normalized\<close>.
\<close>

record HeatmapResult =
  hm_sectors :: "Sector list"
  result :: Result
  normalized :: "real list list"
  shares :: "real list list"

definition normalize_row :: "jsnum option \<Rightarrow> jsnum list \<Rightarrow> real list" where
  "normalize_row tot row =
     map (\<lambda>x. if falsy tot \<or> falsy (Some x) then 0
               else (case (x, tot) of (Num a, Some (Num t)) \<Rightarrow> a / t | _ \<Rightarrow> 0)) row"

definition maxIndicatorValue :: "real list \<Rightarrow> real" where
  "maxIndicatorValue row =
     (if length row = 0 then 0 else foldl (\<lambda>m x. max m \<bar>x\<bar>) 0 row)"

definition share_row :: "real \<Rightarrow> real list \<Rightarrow> real list" where
  "share_row mx row =
     (if length row = 0 then []
      else map (\<lambda>x. if x = 0 then 0
                     else if mx = 0 then (if x \<ge> 0 then 100 else - 100)
                     else 100 * x / mx) row)"

definition new_HeatmapResult :: "Sector list \<Rightarrow> Result \<Rightarrow> HeatmapResult" where
  "new_HeatmapResult secs res =
     (let nrm = map (\<lambda>(row, i). normalize_row (js_get (totals res) (int i)) row)
                  (zip (data res) [0..<length (data res)]);
          maxIndicatorValues = map maxIndicatorValue nrm;
          shr = map (\<lambda>(row, i). share_row (maxIndicatorValues ! i) row)
                  (zip nrm [0..<length nrm])
      in \<lparr> hm_sectors = secs, result = res, normalized = nrm, shares = shr \<rparr>)"

text \<open>
  The private method \<open>value(data, row, column)\<close>. Its first test, \<open>!data\<close>, never holds:
  the three matrices it is called with are arrays once the constructor has returned.
\<close>

definition value_of :: "'a::zero list list \<Rightarrow> int \<Rightarrow> int \<Rightarrow> 'a" where
  "value_of dat row column =
     (if row < 0 \<or> row \<ge> int (length dat) then 0
      else let xs = dat ! nat row
           in if column < 0 \<or> column \<ge> int (length xs) then 0
              else xs ! nat column)"

text \<open>\<open>getResult\<close> and \<open>getShare\<close>; an argument \<open>None\<close> is \<open>null\<close> or \<open>undefined\<close>.\<close>

definition getResult :: "HeatmapResult \<Rightarrow> Indicator option \<Rightarrow> Sector option \<Rightarrow> jsnum" where
  "getResult h indicator sector =
     (case (indicator, sector) of
        (Some i, Some s) \<Rightarrow> value_of (data (result h)) (index i) (index s)
      | _ \<Rightarrow> 0)"

definition getShare :: "HeatmapResult \<Rightarrow> Indicator option \<Rightarrow> Sector option \<Rightarrow> real" where
  "getShare h indicator sector =
     (case (indicator, sector) of
        (Some i, Some s) \<Rightarrow> value_of (shares h) (index i) (index s)
      | _ \<Rightarrow> 0)"

text \<open>
  \<open>matchesFilter(sector, filter)\<close>; the filter \<open>None\<close> is \<open>null\<close>. The empty string is
  falsy, as a filter and as a name.
\<close>

definition matchesFilter :: "Sector \<Rightarrow> string option \<Rightarrow> bool" where
  "matchesFilter sector filt =
     (case filt of
        None \<Rightarrow> True
      | Some f \<Rightarrow>
          if f = [] then True
          else if name sector = [] then False
          else indexOf (toLowerCase (name sector)) f \<ge> 0)"

definition getRankingValue :: "HeatmapResult \<Rightarrow> Sector \<Rightarrow> Indicator list \<Rightarrow> real" where
  "getRankingValue h sector inds =
     (let column = index sector
      in foldl (\<lambda>acc indicator. acc + value_of (normalized h) (index indicator) column) 0 inds)"

text \<open>The filter that \<open>getRanking\<close> derives from its argument \<open>nameFilter\<close>.\<close>

definition ranking_filter :: "string option \<Rightarrow> string option" where
  "ranking_filter nameFilter =
     (case nameFilter of
        None \<Rightarrow> None
      | Some nf \<Rightarrow> if nf \<noteq> [] \<and> length (trim nf) > 0 then Some (toLowerCase (trim nf)) else None)"

text \<open>The array \<open>ranks\<close> of \<open>getRanking\<close> before it is sorted.\<close>

definition ranks :: "HeatmapResult \<Rightarrow> Indicator list \<Rightarrow> string option \<Rightarrow> (Sector \<times> real) list" where
  "ranks h inds nameFilter =
     map (\<lambda>sector. (sector, getRankingValue h sector inds))
       (filter (\<lambda>sector. matchesFilter sector (ranking_filter nameFilter)) (hm_sectors h))"

definition getRanking :: "HeatmapResult \<Rightarrow> Indicator list \<Rightarrow> int \<Rightarrow> string option \<Rightarrow> Sector list" where
  "getRanking h inds cnt nameFilter =
     map fst (slice0 (js_sort (\<lambda>r1 r2. snd r2 - snd r1) (ranks h inds nameFilter)) cnt)"


section \<open>The widget life cycle (class Widget)\<close>

text \<open>
  The state of a \<open>Widget\<close>: its three private fields, its own identity (\<open>this\<close>), and
  the trace of the calls of \<open>handleUpdate\<close> made so far, oldest first. An entry of the
  queue is the closure \<open>() => this.handleUpdate(config)\<close>, represented by the
  configuration it captured. A listener is represented by its identity.
\<close>

record Widget =
  this :: nat
  isReady :: bool
  listeners :: "nat list"
  queue :: "Config list"
  handled :: "Config list"

definition handleUpdate :: "Widget \<Rightarrow> Config \<Rightarrow> Widget" where
  "handleUpdate w config = w\<lparr> handled := handled w @ [config] \<rparr>"

text \<open>\<open>update(config)\<close>; the argument \<open>None\<close> is \<open>null\<close> or \<open>undefined\<close>.\<close>

definition update :: "Widget \<Rightarrow> Config option \<Rightarrow> Widget" where
  "update w config =
     (case config of
        None \<Rightarrow> w
      | Some c \<Rightarrow>
          if source c = Some (this w) then w
          else if \<not> isReady w then w\<lparr> queue := queue w @ [c] \<rparr>
          else handleUpdate w c)"

text \<open>\<open>ready()\<close>: \<open>queue.pop()\<close> removes and returns the last entry.\<close>

definition ready :: "Widget \<Rightarrow> Widget" where
  "ready w =
     (let w1 = w\<lparr> isReady := True \<rparr>
      in if length (queue w1) = 0 then w1
         else handleUpdate (w1\<lparr> queue := butlast (queue w1) \<rparr>) (last (queue w1)))"

definition onChanged :: "Widget \<Rightarrow> nat \<Rightarrow> Widget" where
  "onChanged w fn = w\<lparr> listeners := listeners w @ [fn] \<rparr>"

text \<open>A configuration that \<open>update\<close> does not drop.\<close>

definition accepted :: "Widget \<Rightarrow> Config option \<Rightarrow> bool" where
  "accepted w config = (case config of None \<Rightarrow> False | Some c \<Rightarrow> source c \<noteq> Some (this w))"

section \<open>The configuration in the URL (src/widget.ts)\<close>

text \<open>
  \<open>s.split(c)\<close> for a separator of one character: at least one part, the empty string
  has the one part \<open>""\<close>. \<open>parts.join(sep)\<close> puts the separator between the parts.
\<close>

fun split_on :: "char \<Rightarrow> string \<Rightarrow> string list" where
  "split_on c [] = [[]]"
| "split_on c (x # xs) =
     (if x = c then [] # split_on c xs
      else (case split_on c xs of [] \<Rightarrow> [[x]] | p # ps \<Rightarrow> (x # p) # ps))"


text \<open>
  \<open>parseInt(val, 10)\<close>: leading white space is skipped, a sign is read, and the longest
  run of decimal digits that follows is the number; without a digit the result is \<open>NaN\<close>.
  \<open>parseInt\<close> raises no exception. (Beyond \<open>2^53\<close> JavaScript rounds the number; the model
  does not.)
\<close>

definition is_digit :: "char \<Rightarrow> bool" where
  "is_digit c = ((48::nat) \<le> of_char c \<and> of_char c \<le> (57::nat))"

definition digit_val :: "char \<Rightarrow> nat" where
  "digit_val c = of_char c - 48"

definition digits_val :: "string \<Rightarrow> nat" where
  "digits_val ds = foldl (\<lambda>n c. 10 * n + digit_val c) 0 ds"

definition parseInt :: "string \<Rightarrow> jsint" where
  "parseInt val =
     (let s = dropWhile is_space val;
          neg = (s \<noteq> [] \<and> hd s = CHR ''-'');
          s1 = (if s \<noteq> [] \<and> (hd s = CHR ''+'' \<or> hd s = CHR ''-'') then tl s else s);
          z = takeWhile is_digit s1
      in if z = [] then NaNi
         else Integer (if neg then - int (digits_val z) else int (digits_val z)))"

text \<open>The string of a number in a template literal, for the numbers of the model.\<close>

fun digits_of :: "nat \<Rightarrow> string" where
  "digits_of n =
     (if n < 10 then [char_of (48 + n)] else digits_of (n div 10) @ [char_of (48 + n mod 10)])"

declare digits_of.simps [simp del]

definition number_to_string :: "jsint \<Rightarrow> string" where
  "number_to_string v =
     (case v of
        NaNi \<Rightarrow> ''NaN''
      | Integer i \<Rightarrow> if i < 0 then CHR ''-'' # digits_of (nat (- i)) else digits_of (nat i))"

text \<open>
  Modelled from the spec: \<open>strings.eq\<close> of the module \<open>./strings\<close>, which is not among
  the sources. The spec maps \<open>consumption\<close> and \<open>production\<close> to the analysis type
  without regard to case.
\<close>

definition strings_eq :: "string \<Rightarrow> string \<Rightarrow> bool" where
  "strings_eq a b = (toLowerCase a = toLowerCase b)"

text \<open>Truthiness of the optional fields of a configuration.\<close>

definition truthy_string :: "string option \<Rightarrow> bool" where
  "truthy_string v = (case v of None \<Rightarrow> False | Some s \<Rightarrow> s \<noteq> [])"

definition truthy_year :: "jsint option \<Rightarrow> bool" where
  "truthy_year v = (case v of Some (Integer i) \<Rightarrow> i \<noteq> 0 | _ \<Rightarrow> False)"

definition getPerspective :: "string \<Rightarrow> ResultPerspective option" where
  "getPerspective val =
     (if val = [] then None
      else let v = toLowerCase (trim val)
           in if v \<in> set [''direct'', ''direct results'', ''supply'', ''supply chain'']
              then Some direct
              else if v \<in> set [''final'', ''final results'', ''consumption'',
                                 ''final consumption'', ''point of consumption'']
              then Some final
              else if v \<in> set [''intermediate'', ''intermediate results'']
              then Some intermediate
              else None)"

text \<open>
  One round of the loop of \<open>updateConfig\<close>: the \<open>switch\<close> on the key. An array and a
  non-empty string literal are truthy. In the case \<open>"year"\<close> the \<open>catch\<close> clause is
  never entered, because \<open>parseInt\<close> does not raise; the case has no \<open>break\<close> and falls
  through to the empty \<open>default\<close> case.
\<close>

definition update_param :: "Config \<Rightarrow> string \<times> string \<Rightarrow> Config" where
  "update_param config kv =
     (let key = fst kv; val = snd kv
      in if key = ''model'' then
           (if truthy_string (model config) then config else config\<lparr> model := Some val \<rparr>)
         else if key = ''sectors'' then
           (if sectors config \<noteq> None then config
            else config\<lparr> sectors := Some (split_on CHR '','' val) \<rparr>)
         else if key = ''indicators'' then
           (if indicators config \<noteq> None then config
            else config\<lparr> indicators := Some (split_on CHR '','' val) \<rparr>)
         else if key = ''type'' \<or> key = ''analysis'' then
           (if analysis config \<noteq> None then config
            else if strings_eq val ''consumption'' then config\<lparr> analysis := Some Consumption \<rparr>
            else if strings_eq val ''production'' then config\<lparr> analysis := Some Production \<rparr>
            else config)
         else if key = ''perspective'' then
           (if perspective config \<noteq> None then config
            else (case getPerspective val of
                    Some p \<Rightarrow> config\<lparr> perspective := Some p \<rparr>
                  | None \<Rightarrow> config))
         else if key = ''location'' then
           (if truthy_string (location config) then config else config\<lparr> location := Some val \<rparr>)
         else if key = ''year'' then
           (if truthy_year (year config) then config else config\<lparr> year := Some (parseInt val) \<rparr>)
         else config)"

fun updateConfig :: "Config \<Rightarrow> (string \<times> string) list \<Rightarrow> Config" where
  "updateConfig config [] = config"
| "updateConfig config (kv # urlParams) = updateConfig (update_param config kv) urlParams"

text \<open>\<open>getParameters\<close>; the loop over the pairs is \<open>collect_params\<close>. \<open>None\<close> is \<open>null\<close>.\<close>

fun collect_params :: "string list \<Rightarrow> (string \<times> string) list" where
  "collect_params [] = []"
| "collect_params (pair # pairs) =
     (let keyVal = split_on CHR ''='' pair
      in if length keyVal < 2 then collect_params pairs
         else (toLowerCase (trim (keyVal ! 0)), trim (keyVal ! 1)) # collect_params pairs)"

definition getParameters :: "string option \<Rightarrow> (string \<times> string) list" where
  "getParameters urlPart =
     (case urlPart of
        None \<Rightarrow> []
      | Some u \<Rightarrow> if u = [] then [] else collect_params (split_on CHR ''&'' u))"

definition getHashPart :: "string \<Rightarrow> string option" where
  "getHashPart url =
     (if url = [] then None
      else let parts = split_on CHR ''#'' url
           in if length parts < 2 then None else Some (parts ! (length parts - 1)))"

definition getParameterPart :: "string \<Rightarrow> string option" where
  "getParameterPart url =
     (if url = [] then None
      else let parts = split_on CHR ''#'' url;
               part = (if length parts > 1 then parts ! (length parts - 2) else url);
               parts2 = split_on CHR ''?'' part
           in if length parts2 < 2 then None else Some (parts2 ! 1))"

text \<open>
  \<open>parseUrlConfig(what)\<close>. The browser is represented by what the function reads from it:
  \<open>window.location.href\<close> and the \<open>src\<close> of the script elements of the document, in
  order. \<open>withScripts\<close> is \<open>what && what.withScripts\<close>.
\<close>

fun parse_urls :: "Config \<Rightarrow> string list \<Rightarrow> Config" where
  "parse_urls config [] = config"
| "parse_urls config (url # urls) =
     (let hashParams = getParameters (getHashPart url);
          otherParams = getParameters (getParameterPart url)
      in parse_urls (updateConfig (updateConfig config hashParams) otherParams) urls)"

definition parseUrlConfig :: "string \<Rightarrow> string list \<Rightarrow> bool \<Rightarrow> Config" where
  "parseUrlConfig href scripts withScripts =
     (let urls = [href] @ (if withScripts then filter (\<lambda>url. url \<noteq> []) scripts else [])
      in parse_urls emptyConfig urls)"














section \<open>Aggregation by regions (src/calc/heatmap-result.ts)\<close>

text \<open>
  \<open>sectorIdx\<close> is an object literal \<open>{}\<close> that is used as a dictionary from codes to
  positions. Reading \<open>sectorIdx[code]\<close> yields the position stored under the code, if
  there is one; otherwise the property that a plain object inherits from
  \<open>Object.prototype\<close> under that name, if there is one; otherwise \<open>undefined\<close>.
\<close>

datatype prop_value = Undefined | Own nat | Inherited

definition object_prototype_keys :: "string list" where
  "object_prototype_keys = [''constructor'', ''hasOwnProperty'', ''isPrototypeOf'',
     ''propertyIsEnumerable'', ''toLocaleString'', ''toString'', ''valueOf'', ''__proto__'',
     ''__defineGetter__'', ''__defineSetter__'', ''__lookupGetter__'', ''__lookupSetter__'']"

definition get_property :: "(string \<rightharpoonup> nat) \<Rightarrow> string \<Rightarrow> prop_value" where
  "get_property obj key =
     (case obj key of
        Some i \<Rightarrow> Own i
      | None \<Rightarrow> if key \<in> set object_prototype_keys then Inherited else Undefined)"

text \<open>
  The first loop of \<open>aggregateByRegions\<close>, with the state \<open>(sectorIdx, aggSectors, idx)\<close>.
  \<open>idx\<close> is the length of \<open>aggSectors\<close> throughout, so that \<open>aggSectors[idx] = agg\<close>
  appends; \<open>aggSectorIds\<close> holds the ids of \<open>aggSectors\<close>.
\<close>

fun index_sectors ::
  "(string \<rightharpoonup> nat) \<times> Sector list \<times> nat \<Rightarrow> Sector list \<Rightarrow> (string \<rightharpoonup> nat) \<times> Sector list \<times> nat"
where
  "index_sectors st [] = st"
| "index_sectors (sectorIdx, aggSectors, idx) (s # ss) =
     (if get_property sectorIdx (code s) = Undefined then
        let agg = \<lparr> code = code s, index = int idx, name = name s,
                    sector_id = toLowerCase (code s @ ''/'' @ name s),
                    description = description s, sector_location = None \<rparr>
        in index_sectors (sectorIdx(code s \<mapsto> idx), aggSectors @ [agg], idx + 1) ss
      else index_sectors (sectorIdx, aggSectors, idx) ss)"

text \<open>
  \<open>aggRow[j] += v\<close>. When \<open>j\<close> is a position of the array, the entry is replaced. When
  \<open>j\<close> is not a number (\<open>undefined\<close>, or an inherited function or object), the assignment
  creates a property of that name and leaves the entries of the array as they are. A
  position beyond the end does not occur in \<open>aggregateByRegions\<close>; the array would be
  extended and the new entry would be \<open>NaN\<close>.
\<close>

definition add_at :: "jsnum list \<Rightarrow> prop_value \<Rightarrow> jsnum \<Rightarrow> jsnum list" where
  "add_at aggRow j v =
     (case j of
        Own k \<Rightarrow> if k < length aggRow then aggRow[k := aggRow ! k + v]
                 else aggRow @ replicate (k - length aggRow) NaN @ [NaN]
      | _ \<Rightarrow> aggRow)"

definition aggregate_row ::
  "(string \<rightharpoonup> nat) \<Rightarrow> nat \<Rightarrow> Sector list \<Rightarrow> jsnum list \<Rightarrow> jsnum list" where
  "aggregate_row sectorIdx n secs row =
     fold (\<lambda>sector aggRow.
             add_at aggRow (get_property sectorIdx (code sector))
               (to_num (js_get row (index sector))))
       secs (replicate n 0)"

definition aggregateByRegions :: "Result \<Rightarrow> Model \<Rightarrow> Sector list \<times> Result" where
  "aggregateByRegions res mdl =
     (if \<not> isMultiRegional mdl then (model_sectors mdl, res)
      else
        let secs = model_sectors mdl;
            st = index_sectors (Map.empty, [], 0) secs;
            sectorIdx = fst st;
            aggSectors = fst (snd st);
            dat = map (aggregate_row sectorIdx (length aggSectors) secs) (data res)
        in (aggSectors,
            \<lparr> data = dat, result_indicators = result_indicators res,
              result_sectors = map sector_id aggSectors, totals = totals res \<rparr>))"

text \<open>\<open>HeatmapResult.from(model, result)\<close>.\<close>

definition HeatmapResult_from :: "Model \<Rightarrow> Result \<Rightarrow> HeatmapResult" where
  "HeatmapResult_from mdl res =
     (let sr = aggregateByRegions res mdl in new_HeatmapResult (fst sr) (snd sr))"

section \<open>Example data\<close>

text \<open>One indicator and two sectors: the row \<open>[10, 5]\<close> with the total \<open>20\<close>.\<close>

definition example_result :: Result where
  "example_result = \<lparr> data = [[Num 10, Num 5]], result_indicators = [''I''],
     result_sectors = [''a'', ''b''], totals = [Num 20] \<rparr>"

definition example_indicator :: Indicator where
  "example_indicator = \<lparr> code = ''I'', index = 0, name = ''Impact'' \<rparr>"

definition example_sector :: "string \<Rightarrow> int \<Rightarrow> string \<Rightarrow> Sector" where
  "example_sector c i n = \<lparr> code = c, index = i, name = n, sector_id = c @ ''/'' @ n,
     description = [], sector_location = Some ''US'' \<rparr>"

text \<open>Three sectors; the first and the third have the same share of the total.\<close>

definition example_sectors :: "Sector list" where
  "example_sectors = [example_sector ''a'' 0 ''Steel'', example_sector ''b'' 1 ''Steelworks'',
     example_sector ''t'' 2 ''Textiles'']"

definition example_result3 :: Result where
  "example_result3 = \<lparr> data = [[Num 5, Num 10, Num 5]], result_indicators = [''I''],
     result_sectors = [''a'', ''b'', ''t''], totals = [Num 20] \<rparr>"



definition example_model :: Model where
  "example_model = \<lparr> isMultiRegional = True,
     model_sectors = [example_sector ''A'' 0 ''Steel'', example_sector ''A'' 1 ''Steel''] \<rparr>"

definition example_result2 :: Result where
  "example_result2 = \<lparr> data = [[Num 10, Num 4]], result_indicators = [''I''],
     result_sectors = [''A'', ''A''], totals = [Num 14] \<rparr>"

section \<open>Properties of the widget life cycle\<close>

lemma update_this [simp]: "this (update w config) = this w"
  by (simp add: update_def handleUpdate_def split: option.split)

lemma update_isReady [simp]: "isReady (update w config) = isReady w"
  by (simp add: update_def handleUpdate_def split: option.split)

lemma update_when_ready:
  "isReady w \<Longrightarrow> queue (update w config) = queue w \<and>
     handled (update w config) = handled w @ (if accepted w config then [the config] else [])"
  by (simp add: update_def handleUpdate_def accepted_def split: option.split)

lemma updates_when_ready:
  "isReady w \<Longrightarrow>
     queue (fold (\<lambda>c v. update v c) cs w) = queue w \<and>
     handled (fold (\<lambda>c v. update v c) cs w) = handled w @ map the (filter (accepted w) cs)"
proof (induction cs arbitrary: w)
  case Nil
  then show ?case by simp
next
  case (Cons c cs)
  have r: "isReady (update w c)" using Cons.prems by simp
  have a: "accepted (update w c) = accepted w"
    by (rule ext) (simp add: accepted_def split: option.split)
  show ?case
    using Cons.IH [OF r] update_when_ready [OF Cons.prems, of c] by (simp add: a)
qed

text \<open>
  C9. \<open>w.update(c)\<close> changes nothing when \<open>c\<close> is null or undefined or when
  \<open>c.source\<close> is the widget itself: the whole state is the same afterwards, so the
  readiness flag, the queue and the listeners are unchanged and \<open>handleUpdate\<close> has not
  been called.
\<close>

theorem update_echo_noop:
  "update w None = w \<and> update w (Some (c\<lparr> source := Some (this w) \<rparr>)) = w"
  by (simp add: update_def)

text \<open>
  C6. A widget that is not ready receives \<open>update(C1)\<close> and then \<open>update(C2)\<close>, both
  accepted. The call of \<open>ready()\<close> then makes the widget ready and calls
  \<open>handleUpdate\<close> once, with \<open>C2\<close>. The updates buffered earlier, \<open>C1\<close> among them, stay
  in the queue, and no later \<open>update\<close> takes anything from it: the calls of
  \<open>handleUpdate\<close> after the transition are the accepted later updates, in order.
  (The transition happens once: \<open>ready()\<close> is called by the widget when its
  initialization is complete.)
\<close>

theorem ready_applies_last_update_only:
  assumes "\<not> isReady w"
    and "source C1 \<noteq> Some (this w)"
    and "source C2 \<noteq> Some (this w)"
  shows "isReady (ready (update (update w (Some C1)) (Some C2))) \<and>
     handled (ready (update (update w (Some C1)) (Some C2))) = handled w @ [C2] \<and>
     queue (ready (update (update w (Some C1)) (Some C2))) = queue w @ [C1] \<and>
     handled (fold (\<lambda>c v. update v c) cs (ready (update (update w (Some C1)) (Some C2))))
       = handled w @ [C2] @ map the (filter (accepted w) cs) \<and>
     queue (fold (\<lambda>c v. update v c) cs (ready (update (update w (Some C1)) (Some C2))))
       = queue w @ [C1]"
proof -
  define r where "r = ready (update (update w (Some C1)) (Some C2))"
  have q: "queue (update (update w (Some C1)) (Some C2)) = queue w @ [C1, C2]"
    and h: "handled (update (update w (Some C1)) (Some C2)) = handled w"
    using assms by (simp_all add: update_def)
  have rdy: "isReady r"
    by (simp add: r_def ready_def Let_def handleUpdate_def)
  have hr: "handled r = handled w @ [C2]"
    using q h by (simp add: r_def ready_def Let_def handleUpdate_def)
  have qr: "queue r = queue w @ [C1]"
    using q by (simp add: r_def ready_def Let_def handleUpdate_def butlast_append)
  have t: "this r = this w"
    by (simp add: r_def ready_def Let_def handleUpdate_def)
  have a: "accepted r = accepted w"
    by (rule ext) (simp add: accepted_def t split: option.split)
  have "handled (fold (\<lambda>c v. update v c) cs r) = handled w @ [C2] @ map the (filter (accepted w) cs)"
    and "queue (fold (\<lambda>c v. update v c) cs r) = queue w @ [C1]"
    using hr qr updates_when_ready [OF rdy, of cs] by (simp_all add: a)
  with rdy hr qr show ?thesis
    unfolding r_def by blast
qed

theorem ready_applies_last_update_only_witness:
  "handled (ready (update (update
      \<lparr> this = 1, isReady = False, listeners = [], queue = [], handled = [] \<rparr>
      (Some (emptyConfig\<lparr> year := Some (Integer 2019) \<rparr>)))
      (Some (emptyConfig\<lparr> year := Some (Integer 2020) \<rparr>))))
   = [emptyConfig\<lparr> year := Some (Integer 2020) \<rparr>]"
  using ready_applies_last_update_only
    [of "\<lparr> this = 1, isReady = False, listeners = [], queue = [], handled = [] \<rparr>"
        "emptyConfig\<lparr> year := Some (Integer 2019) \<rparr>"
        "emptyConfig\<lparr> year := Some (Integer 2020) \<rparr>" "[]"]
  by (simp add: emptyConfig_def)

section \<open>Properties of HeatmapResult\<close>

lemma value_of_default:
  "\<not> (0 \<le> row \<and> row < int (length dat) \<and>
        0 \<le> column \<and> column < int (length (dat ! nat row))) \<Longrightarrow>
     value_of dat row column = 0"
  by (auto simp: value_of_def Let_def)

text \<open>
  C8. \<open>getResult\<close> and \<open>getShare\<close> return \<open>0\<close> when the indicator or the sector is
  null or undefined, and when \<open>indicator.index\<close> is not the position of a row of the
  matrix or \<open>sector.index\<close> is not a position in that row (negative, or at least the
  number of rows, respectively the length of the row). The functions are total: in
  these cases the code returns before it reads the matrix, so that no error is raised.
\<close>

theorem lookups_default_to_zero:
  "getResult h None s = Num 0 \<and> getResult h i None = Num 0 \<and>
   getShare h None s = 0 \<and> getShare h i None = 0 \<and>
   (\<not> (0 \<le> index ind \<and> index ind < int (length (data (result h))) \<and>
        0 \<le> index sec \<and> index sec < int (length (data (result h) ! nat (index ind))))
      \<longrightarrow> getResult h (Some ind) (Some sec) = Num 0) \<and>
   (\<not> (0 \<le> index ind \<and> index ind < int (length (shares h)) \<and>
        0 \<le> index sec \<and> index sec < int (length (shares h ! nat (index ind))))
      \<longrightarrow> getShare h (Some ind) (Some sec) = 0)"
  by (simp add: getResult_def getShare_def value_of_default zero_jsnum_def
      split: option.split)

theorem lookups_default_to_zero_witness:
  "getResult (new_HeatmapResult [] example_result) (Some example_indicator)
     (Some (example_sector ''c'' 2 ''Coal'')) = Num 0 \<and>
   getShare (new_HeatmapResult [] example_result) (Some example_indicator)
     (Some (example_sector ''c'' 2 ''Coal'')) = 0"
proof -
  let ?h = "new_HeatmapResult [] example_result"
  let ?s = "example_sector ''c'' 2 ''Coal''"
  have d: "\<not> (0 \<le> index example_indicator \<and>
      index example_indicator < int (length (data (result ?h))) \<and>
      0 \<le> index ?s \<and> index ?s < int (length (data (result ?h) ! nat (index example_indicator))))"
    by (simp add: new_HeatmapResult_def Let_def example_result_def example_indicator_def
        example_sector_def)
  have s: "\<not> (0 \<le> index example_indicator \<and>
      index example_indicator < int (length (shares ?h)) \<and>
      0 \<le> index ?s \<and> index ?s < int (length (shares ?h ! nat (index example_indicator))))"
    by (simp add: new_HeatmapResult_def Let_def example_result_def example_indicator_def
        example_sector_def normalize_row_def share_row_def)
  from lookups_default_to_zero [of ?h None None example_indicator ?s] d s
  show ?thesis by blast
qed












subsection \<open>Ranking\<close>

lemma insert_cmp_insort:
  "insert_cmp (\<lambda>r1 r2. snd r2 - snd r1) x ys = insort_key (\<lambda>r. - snd r) x ys"
  by (induction ys) auto

lemma js_sort_sort_key:
  "js_sort (\<lambda>r1 r2. snd r2 - snd r1) xs = sort_key (\<lambda>r. - snd r) xs"
  by (induction xs) (simp_all add: js_sort_def insert_cmp_insort)


lemma slice0_all: "int (length xs) \<le> e \<Longrightarrow> slice0 xs e = xs"
  by (simp add: slice0_def Let_def)

lemma slice0_negative:
  "e < 0 \<Longrightarrow> slice0 xs e = take (length xs - min (nat (- e)) (length xs)) xs"
  by (auto simp: slice0_def Let_def intro!: arg_cong2 [where f = take])







text \<open>
  C10. For a negative count \<open>c\<close>, \<open>getRanking\<close> returns the whole ranking of the sectors
  that pass the filter without its last \<open>min(|c|, length)\<close> entries; with at least two
  such sectors and \<open>c = -1\<close> the result is not empty.
\<close>

theorem ranking_negative_count:
  "cnt < 0 \<Longrightarrow>
     getRanking h inds cnt nf =
       take (length (ranks h inds nf) - min (nat \<bar>cnt\<bar>) (length (ranks h inds nf)))
         (getRanking h inds (int (length (hm_sectors h))) nf) \<and>
     (2 \<le> length (ranks h inds nf) \<longrightarrow> getRanking h inds (- 1) nf \<noteq> [])"
proof -
  let ?srt = "js_sort (\<lambda>r1 r2 :: Sector \<times> real. snd r2 - snd r1) (ranks h inds nf)"
  have l: "length ?srt = length (ranks h inds nf)"
    by (simp add: js_sort_sort_key)
  have len: "length ?srt \<le> length (hm_sectors h)"
    by (simp add: js_sort_sort_key ranks_def)
  have full: "getRanking h inds (int (length (hm_sectors h))) nf = map fst ?srt"
    using len by (simp add: getRanking_def slice0_all)
  have a: "getRanking h inds c nf =
       take (length (ranks h inds nf) - min (nat \<bar>c\<bar>) (length (ranks h inds nf)))
         (getRanking h inds (int (length (hm_sectors h))) nf)" if "c < 0" for c
    unfolding full using that by (simp add: getRanking_def slice0_negative l take_map abs_if)
  have b: "getRanking h inds (- 1) nf \<noteq> []" if "2 \<le> length (ranks h inds nf)"
  proof -
    have "length (getRanking h inds (- 1) nf) = length (ranks h inds nf) - 1"
      using a [of "- 1"] unfolding full by (simp add: l)
    with that show ?thesis by auto
  qed
  assume "cnt < 0"
  with a b show ?thesis by blast
qed

lemma ex_norm: "normalized (new_HeatmapResult example_sectors example_result3) = [[1/4, 1/2, 1/4]]"
  by (simp add: new_HeatmapResult_def example_result3_def normalize_row_def js_get_def
        falsy_def Let_def)

lemma ex_ranks: "ranks (new_HeatmapResult example_sectors example_result3) [example_indicator] None
   = [(example_sector ''a'' 0 ''Steel'', 1/4), (example_sector ''b'' 1 ''Steelworks'', 1/2),
      (example_sector ''t'' 2 ''Textiles'', 1/4)]"
  by (simp add: ranks_def getRankingValue_def ex_norm value_of_def ranking_filter_def matchesFilter_def
     example_indicator_def example_sector_def) (simp add: new_HeatmapResult_def Let_def example_sectors_def example_sector_def)

theorem ranking_negative_count_witness:
  "getRanking (new_HeatmapResult example_sectors example_result3) [example_indicator] (- 1) None
     = [example_sector ''b'' 1 ''Steelworks'', example_sector ''a'' 0 ''Steel'']"
proof -
  let ?h = "new_HeatmapResult example_sectors example_result3"
  have l: "length (hm_sectors ?h) = 3"
    by (simp add: new_HeatmapResult_def Let_def example_sectors_def)
  have f: "getRanking ?h [example_indicator] 3 None
     = [example_sector ''b'' 1 ''Steelworks'', example_sector ''a'' 0 ''Steel'',
        example_sector ''t'' 2 ''Textiles'']"
    by (simp add: getRanking_def ex_ranks js_sort_def slice0_def)
  from ranking_negative_count [of "- 1" ?h "[example_indicator]" None]
  show ?thesis
    by (simp add: l f ex_ranks)
qed

section \<open>Properties of the aggregation by regions\<close>

lemma index_sectors_inv:
  assumes "index_sectors (m, agg, idx) ss = (m', agg', idx')"
    and "idx = length agg"
    and "\<forall>c k. m c = Some k \<longrightarrow> k < idx"
  shows "idx' = length agg' \<and> (\<forall>c k. m' c = Some k \<longrightarrow> k < idx') \<and>
     (\<forall>c. m c \<noteq> None \<longrightarrow> m' c \<noteq> None) \<and>
     (\<forall>s \<in> set ss. code s \<notin> set object_prototype_keys \<longrightarrow> m' (code s) \<noteq> None)"
  using assms
proof (induction ss arbitrary: m agg idx)
  case Nil
  then show ?case by auto
next
  case (Cons s ss)
  show ?case
  proof (cases "get_property m (code s) = Undefined")
    case True
    let ?agg = "\<lparr> code = code s, index = int idx, name = name s,
                    sector_id = toLowerCase (code s @ ''/'' @ name s),
                    description = description s, sector_location = None \<rparr>"
    from True Cons.prems(1)
    have r: "index_sectors (m(code s \<mapsto> idx), agg @ [?agg], idx + 1) ss = (m', agg', idx')"
      by (simp add: Let_def)
    have i1: "idx + 1 = length (agg @ [?agg])" using Cons.prems(2) by simp
    have i2: "\<forall>c k. (m(code s \<mapsto> idx)) c = Some k \<longrightarrow> k < idx + 1"
      using Cons.prems(3) by (auto simp: less_Suc_eq)
    from Cons.IH [OF r i1 i2]
    have a: "idx' = length agg'" and b: "\<forall>c k. m' c = Some k \<longrightarrow> k < idx'"
      and c: "\<forall>c. (m(code s \<mapsto> idx)) c \<noteq> None \<longrightarrow> m' c \<noteq> None"
      and d: "\<forall>t \<in> set ss. code t \<notin> set object_prototype_keys \<longrightarrow> m' (code t) \<noteq> None"
      by blast+
    from c have c1: "m' (code s) \<noteq> None" by simp
    from c have c2: "\<forall>c. m c \<noteq> None \<longrightarrow> m' c \<noteq> None" 
      by (metis fun_upd_apply option.distinct(1))
    from a b c1 c2 d show ?thesis by simp
  next
    case False
    with Cons.prems(1) have r: "index_sectors (m, agg, idx) ss = (m', agg', idx')"
      by simp
    from Cons.IH [OF r Cons.prems(2,3)]
    have a: "idx' = length agg'" and b: "\<forall>c k. m' c = Some k \<longrightarrow> k < idx'"
      and c: "\<forall>c. m c \<noteq> None \<longrightarrow> m' c \<noteq> None"
      and d: "\<forall>t \<in> set ss. code t \<notin> set object_prototype_keys \<longrightarrow> m' (code t) \<noteq> None"
      by blast+
    have "m' (code s) \<noteq> None" if "code s \<notin> set object_prototype_keys"
    proof -
      from False that have "m (code s) \<noteq> None"
        by (auto simp: get_property_def split: option.splits)
      with c show ?thesis by blast
    qed
    with a b c d show ?thesis by simp
  qed
qed

lemma sum_list_add_at:
  "k < length xs \<Longrightarrow> sum_list (xs[k := xs ! k + v]) = sum_list xs + (v :: jsnum)"
proof (induction xs arbitrary: k)
  case Nil
  then show ?case by simp
next
  case (Cons x xs)
  show ?case
  proof (cases k)
    case 0
    then show ?thesis by (simp add: ac_simps)
  next
    case (Suc n)
    with Cons have "sum_list (xs[n := xs ! n + v]) = sum_list xs + v" by simp
    with Suc show ?thesis by (simp add: ac_simps)
  qed
qed

lemma fold_add_at:
  assumes "\<forall>s \<in> set secs. \<exists>k < length acc. get_property m (code s) = Own k"
  shows "length (fold (\<lambda>sector aggRow. add_at aggRow (get_property m (code sector)) (f sector)) secs acc)
       = length acc \<and>
     sum_list (fold (\<lambda>sector aggRow. add_at aggRow (get_property m (code sector)) (f sector)) secs acc)
       = sum_list acc + sum_list (map f secs)"
  using assms
proof (induction secs arbitrary: acc)
  case Nil
  then show ?case by simp
next
  case (Cons s secs)
  from Cons.prems obtain k where k: "k < length acc" "get_property m (code s) = Own k"
    by auto
  let ?acc = "add_at acc (get_property m (code s)) (f s)"
  have l: "length ?acc = length acc" using k by (simp add: add_at_def)
  have su: "sum_list ?acc = sum_list acc + f s"
    using k by (simp add: add_at_def sum_list_add_at)
  have "\<forall>t \<in> set secs. \<exists>k < length ?acc. get_property m (code t) = Own k"
    using Cons.prems l by simp
  from Cons.IH [OF this] show ?case
    by (simp add: l su ac_simps)
qed

lemma sum_list_rearranged:
  assumes "mset xs = mset ys"
  shows "sum_list (map g xs) = (sum_list (map g ys) :: jsnum)"
proof -
  have "mset (map g xs) = mset (map g ys)"
    using assms by simp
  then have "sum_mset (mset (map g xs)) = sum_mset (mset (map g ys))"
    by (rule arg_cong)
  then show ?thesis
    by (simp only: sum_mset_sum_list)
qed

lemma sum_over_columns:
  assumes "mset (map index secs) = mset (map int [0..<length row])"
  shows "sum_list (map (\<lambda>s. to_num (js_get row (index s))) secs) = sum_list (row :: jsnum list)"
proof -
  let ?g = "\<lambda>i. to_num (js_get row i)"
  have "sum_list (map (\<lambda>s. ?g (index s)) secs) = sum_list (map ?g (map index secs))"
    by (simp add: o_def)
  also have "\<dots> = sum_list (map ?g (map int [0..<length row]))"
    using assms by (rule sum_list_rearranged)
  also have "map ?g (map int [0..<length row]) = map (\<lambda>i. row ! i) [0..<length row]"
    by (simp add: js_get_def to_num_def)
  also have "\<dots> = row" by (rule map_nth)
  finally show ?thesis .
qed

lemma aggregate_row_sum:
  assumes "index_sectors (Map.empty, [], 0) secs = (m, agg, idx)"
    and "\<forall>s \<in> set secs. code s \<notin> set object_prototype_keys"
    and "mset (map index secs) = mset (map int [0..<length row])"
  shows "sum_list (aggregate_row m (length agg) secs row) = sum_list row"
proof -
  have "idx = length agg \<and> (\<forall>c k. m c = Some k \<longrightarrow> k < idx) \<and>
     (\<forall>c. Map.empty c \<noteq> (None :: nat option) \<longrightarrow> m c \<noteq> None) \<and>
     (\<forall>s \<in> set secs. code s \<notin> set object_prototype_keys \<longrightarrow> m (code s) \<noteq> None)"
    by (rule index_sectors_inv [OF assms(1)]) simp_all
  then have b: "\<forall>c k. m c = Some k \<longrightarrow> k < idx" and a: "idx = length agg"
    and d: "\<forall>s \<in> set secs. code s \<notin> set object_prototype_keys \<longrightarrow> m (code s) \<noteq> None"
    by blast+
  have own: "\<forall>s \<in> set secs. \<exists>k < length (replicate (length agg) (0::jsnum)).
      get_property m (code s) = Own k"
  proof
    fix s assume s: "s \<in> set secs"
    with assms(2) d obtain k where k: "m (code s) = Some k" by blast
    with b a have "k < length agg" by blast
    with k show "\<exists>k < length (replicate (length agg) (0::jsnum)). get_property m (code s) = Own k"
      by (simp add: get_property_def)
  qed
  have z: "sum_list (replicate n (0::jsnum)) = 0" for n
    by (induction n) simp_all
  from fold_add_at [OF own, of "\<lambda>s. to_num (js_get row (index s))"]
  have "sum_list (aggregate_row m (length agg) secs row)
      = sum_list (map (\<lambda>s. to_num (js_get row (index s))) secs)"
    by (simp add: aggregate_row_def z)
  with sum_over_columns [OF assms(3)] show ?thesis by simp
qed

lemma aggregation_preserves_row_sums:
  assumes "\<forall>s \<in> set (model_sectors mdl). code s \<notin> set object_prototype_keys"
    and "i < length (data res)"
    and "mset (map index (model_sectors mdl)) = mset (map int [0..<length (data res ! i)])"
  shows "length (data (snd (aggregateByRegions res mdl))) = length (data res) \<and>
     sum_list (data (snd (aggregateByRegions res mdl)) ! i) = sum_list (data res ! i)"
proof (cases "isMultiRegional mdl")
  case False
  then show ?thesis by (simp add: aggregateByRegions_def)
next
  case True
  obtain m agg idx where st: "index_sectors (Map.empty, [], 0) (model_sectors mdl) = (m, agg, idx)"
    by (cases "index_sectors (Map.empty, [], 0) (model_sectors mdl)") auto
  have "data (snd (aggregateByRegions res mdl)) ! i
      = aggregate_row m (length agg) (model_sectors mdl) (data res ! i)"
    using True assms(2) by (simp add: aggregateByRegions_def Let_def st)
  moreover have "length (data (snd (aggregateByRegions res mdl))) = length (data res)"
    using True by (simp add: aggregateByRegions_def Let_def)
  ultimately show ?thesis
    using aggregate_row_sum [OF st assms(1,3)] by simp
qed

text \<open>
  C2. With sector codes that are not names of inherited properties of an object, the
  lemma above gives the statement of the claim: every aggregated row has the sum of the
  original row. The code departs from the claim for a sector whose code is such a name.
  Here the sectors \<open>A\<close> and \<open>constructor\<close> have the columns \<open>0\<close> and \<open>1\<close> of the row
  \<open>[10, 4]\<close>: \<open>sectorIdx["constructor"]\<close> is not \<open>undefined\<close>, so the sector gets no
  column, its value is added to no entry of the aggregated row, and the aggregated row
  \<open>[10]\<close> has the sum \<open>10\<close> where the original row has the sum \<open>14\<close>.
\<close>

theorem aggregation_drops_inherited_code:
  "aggregateByRegions example_result2
     (example_model\<lparr> model_sectors :=
        [example_sector ''A'' 0 ''Steel'', example_sector ''constructor'' 1 ''Construction''] \<rparr>)
   = ([\<lparr> code = ''A'', index = 0, name = ''Steel'', sector_id = ''a/steel'', description = [],
         sector_location = None \<rparr>],
      \<lparr> data = [[Num 10]], result_indicators = [''I''], result_sectors = [''a/steel''],
        totals = [Num 14] \<rparr>) \<and>
   sum_list (data example_result2 ! 0) = Num 14 \<and>
   sum_list (data (snd (aggregateByRegions example_result2
     (example_model\<lparr> model_sectors :=
        [example_sector ''A'' 0 ''Steel'', example_sector ''constructor'' 1 ''Construction''] \<rparr>))) ! 0)
     = Num 10"
  by code_simp

text \<open>Two regions with the sector \<open>A\<close>: the row \<open>[10, 4]\<close> becomes \<open>[14]\<close>.\<close>

lemma aggregation_example:
  "mset (map index (model_sectors example_model)) = mset (map int [0..<length (data example_result2 ! 0)]) \<and>
   aggregateByRegions example_result2 example_model
   = ([\<lparr> code = ''A'', index = 0, name = ''Steel'', sector_id = ''a/steel'', description = [],
         sector_location = None \<rparr>],
      \<lparr> data = [[Num 14]], result_indicators = [''I''], result_sectors = [''a/steel''],
        totals = [Num 14] \<rparr>)"
  by code_simp

section \<open>Properties of the configuration in the URL\<close>

subsection \<open>Splitting, trimming and numbers\<close>

lemma split_on_nonempty: "split_on c s \<noteq> []"
  by (induction s) (auto split: list.split)







lemma digits_of_nonempty: "digits_of n \<noteq> []"
  by (induction n rule: digits_of.induct) (subst digits_of.simps, simp)

lemma is_digit_char: "d < 10 \<Longrightarrow> is_digit (char_of (48 + (d::nat)))"
  by (simp add: is_digit_def)

lemma digit_val_char: "d < 10 \<Longrightarrow> digit_val (char_of (48 + (d::nat))) = d"
  by (simp add: digit_val_def)

lemma digits_of_digits: "\<forall>c \<in> set (digits_of n). is_digit c"
proof (induction n rule: digits_of.induct)
  case (1 n)
  show ?case
  proof (cases "n < 10")
    case True
    then show ?thesis by (subst digits_of.simps) (simp add: is_digit_char)
  next
    case False
    then show ?thesis using 1 by (subst digits_of.simps) (simp add: is_digit_char)
  qed
qed

lemma digits_val_snoc: "digits_val (ds @ [c]) = 10 * digits_val ds + digit_val c"
  by (simp add: digits_val_def)

lemma digits_val_digits_of: "digits_val (digits_of n) = n"
proof (induction n rule: digits_of.induct)
  case (1 n)
  show ?case
  proof (cases "n < 10")
    case True
    then show ?thesis by (subst digits_of.simps) (simp add: digits_val_def digit_val_char)
  next
    case False
    then have "digits_val (digits_of (n div 10)) = n div 10" using 1 by simp
    then show ?thesis using False
      by (subst digits_of.simps) (simp add: digits_val_snoc digit_val_char)
  qed
qed

lemma is_digit_not_space: "is_digit c \<Longrightarrow> \<not> is_space c"
  by (auto simp: is_digit_def is_space_def)

lemma is_digit_not_sep:
  "is_digit c \<Longrightarrow> c \<noteq> CHR ''-'' \<and> c \<noteq> CHR ''+'' \<and> c \<noteq> CHR ''='' \<and> c \<noteq> CHR ''&'' \<and> c \<noteq> CHR ''#''"
  by (auto simp: is_digit_def)

lemma parseInt_digits: "parseInt (digits_of n) = Integer (int n)"
proof -
  obtain d ds where d: "digits_of n = d # ds"
    using digits_of_nonempty by (cases "digits_of n") auto
  have all: "\<forall>c \<in> set (d # ds). is_digit c"
    using digits_of_digits [of n] by (simp only: d)
  then have dd: "is_digit d" by simp
  have 1: "dropWhile is_space (d # ds) = d # ds"
    using is_digit_not_space [OF dd] by simp
  have 2: "takeWhile is_digit (d # ds) = d # ds"
    using all by (simp only: takeWhile_eq_all_conv) 
  show ?thesis
    using is_digit_not_sep [OF dd] digits_val_digits_of [of n]
    by (simp add: parseInt_def d 1 2 Let_def del: dropWhile.simps takeWhile.simps)
qed

lemma parseInt_neg_digits: "parseInt (CHR ''-'' # digits_of n) = Integer (- int n)"
proof -
  have all: "\<forall>c \<in> set (digits_of n). is_digit c"
    by (rule digits_of_digits)
  have 0: "\<not> is_space CHR ''-''" by (simp add: is_space_def)
  have 2: "takeWhile is_digit (digits_of n) = digits_of n"
    using all by (simp only: takeWhile_eq_all_conv)
  show ?thesis
    using digits_val_digits_of [of n] digits_of_nonempty [of n]
    by (simp add: parseInt_def 0 2 Let_def)
qed

lemma parseInt_number_to_string: "parseInt (number_to_string (Integer i)) = Integer i"
  by (simp add: number_to_string_def parseInt_digits parseInt_neg_digits)

subsection \<open>updateConfig\<close>






subsection \<open>The parameter year\<close>

lemma year_param:
  "\<not> truthy_year (year c) \<Longrightarrow> year (update_param c (''year'', v)) = Some (parseInt v)"
  by (simp add: update_param_def Let_def)

lemma year_not_a_number:
  "\<not> truthy_year (year c) \<Longrightarrow> parseInt v = NaNi \<Longrightarrow>
     year (update_param c (''year'', v)) = Some NaNi"
  by (simp add: year_param)

text \<open>For the text of an integer the field is set to that integer (unless it is set already).\<close>

lemma year_integer_text:
  "\<not> truthy_year (year c) \<Longrightarrow>
     year (update_param c (''year'', number_to_string (Integer i))) = Some (Integer i)"
  by (simp add: year_param parseInt_number_to_string)

text \<open>
  C1. The code departs from the claim: for the text \<open>abc\<close>, which is not a number,
  \<open>parseInt\<close> returns \<open>NaN\<close> without raising, the \<open>catch\<close> clause that would delete the
  field is not entered, and the field \<open>year\<close> of the configuration is set, to \<open>NaN\<close>.
\<close>

theorem year_non_numeric_is_NaN:
  "year (updateConfig emptyConfig [(''year'', ''abc'')]) = Some NaNi \<and>
   year (parseUrlConfig ''http://x/p.html#year=abc'' [] False) = Some NaNi"
  by code_simp

subsection \<open>Encoding and decoding\<close>

































subsection \<open>Precedence of the parts of the URLs\<close>






end
